theory Spec2Isabelle
  imports
    Main
    "HOL-Library.Char_ord"
    "HOL-Library.List_Lexorder"
    "HOL-Library.Product_Lexorder"
    "HOL-Library.AList"
    "HOL-Library.Word"
begin

section \<open>Rows of the two collections\<close>

text \<open>
  A row of \<open>device_categories\<close> carries the columns \<open>id\<close> and \<open>name\<close>; a row of
  \<open>programs\<close> carries \<open>state_province\<close> and \<open>device_category_id\<close>. A null cell of the
  store (pandas \<open>None\<close>/\<open>NaN\<close>) is \<open>None\<close>. The field \<open>id\<close> is written \<open>dc_id\<close>
  and \<open>name\<close> is written \<open>dc_name\<close>, since \<open>id\<close> is the identity function of HOL.
  The identifiers are those of an integer key column: signed 64-bit integers, which
  pandas holds as \<open>int64\<close>. They are read with \<open>sint\<close>.
\<close>

record device_category =
  dc_id :: "64 word"
  dc_name :: string

record program =
  state_province :: "string option"
  device_category_id :: "64 word option"

text \<open>
  The processed table \<open>df_us_programs\<close> has the two further columns
  \<open>device_name\<close> and \<open>region\<close>.
\<close>

record us_program = program +
  device_name :: "string option"
  region :: "string option"

datatype error = FetchError | KeyError | ValueError | IndexError

type_synonym device_dict = "(64 word \<times> string) list"

section \<open>Data loading\<close>

text \<open>
  \<open>dict(zip(keys, values))\<close>: a later pair with the same key replaces the value of the
  earlier one, and the key keeps its place.
\<close>

definition dict_zip :: "'k list \<Rightarrow> 'v list \<Rightarrow> ('k \<times> 'v) list" where
  "dict_zip ks vs = foldl (\<lambda>d (k, v). AList.update k v d) [] (zip ks vs)"

text \<open>
  The body of the \<open>try\<close> block of \<open>load_data\<close>. Each of the two \<open>execute()\<close> calls
  either raises (\<open>Inl\<close>) or yields its rows. A frame built from no rows has no column
  \<open>id\<close>, so \<open>device_categories['id']\<close> raises \<open>KeyError\<close>; no program rows raise the
  \<open>ValueError\<close> of the source.
\<close>

definition load_data_try ::
  "error + device_category list \<Rightarrow> error + program list \<Rightarrow> error + (program list \<times> device_dict)"
where
  "load_data_try device_response programs_response =
     (case device_response of
        Inl e \<Rightarrow> Inl e
      | Inr device_categories \<Rightarrow>
          if device_categories = [] then Inl KeyError
          else
            let device_dict = dict_zip (map dc_id device_categories) (map dc_name device_categories)
            in (case programs_response of
                  Inl e \<Rightarrow> Inl e
                | Inr programs_data \<Rightarrow>
                    if programs_data = [] then Inl ValueError
                    else Inr (programs_data, device_dict)))"

text \<open>\<open>load_data\<close>: the \<open>except Exception\<close> clause returns the empty frame and \<open>{}\<close>.\<close>

definition load_data ::
  "error + device_category list \<Rightarrow> error + program list \<Rightarrow> program list \<times> device_dict"
where
  "load_data device_response programs_response =
     (case load_data_try device_response programs_response of
        Inl e \<Rightarrow> ([], [])
      | Inr r \<Rightarrow> r)"

section \<open>Regions\<close>

definition state_to_region_items :: "(string \<times> string) list" where
  "state_to_region_items =
    [(''AZ'', ''Southwest''), (''NM'', ''Southwest''), (''TX'', ''Southwest''), (''OK'', ''Southwest''),
     (''CA'', ''West''), (''OR'', ''West''), (''WA'', ''West''), (''NV'', ''West''), (''ID'', ''West''),
     (''MT'', ''West''), (''WY'', ''West''), (''CO'', ''West''), (''UT'', ''West''),
     (''FL'', ''Southeast''), (''GA'', ''Southeast''), (''SC'', ''Southeast''), (''NC'', ''Southeast''),
     (''VA'', ''Southeast''), (''AL'', ''Southeast''), (''MS'', ''Southeast''), (''TN'', ''Southeast''),
     (''KY'', ''Southeast''), (''AR'', ''Southeast''), (''LA'', ''Southeast''),
     (''IL'', ''Midwest''), (''IN'', ''Midwest''), (''MI'', ''Midwest''), (''OH'', ''Midwest''),
     (''WI'', ''Midwest''), (''MN'', ''Midwest''), (''IA'', ''Midwest''), (''MO'', ''Midwest''),
     (''ND'', ''Midwest''), (''SD'', ''Midwest''), (''NE'', ''Midwest''), (''KS'', ''Midwest''),
     (''NY'', ''Mid-Atlantic''), (''NJ'', ''Mid-Atlantic''), (''PA'', ''Mid-Atlantic''),
     (''DE'', ''Mid-Atlantic''), (''MD'', ''Mid-Atlantic''), (''WV'', ''Mid-Atlantic''),
     (''ME'', ''Northeast''), (''NH'', ''Northeast''), (''VT'', ''Northeast''), (''MA'', ''Northeast''),
     (''RI'', ''Northeast''), (''CT'', ''Northeast'')]"

definition state_to_region :: "string \<Rightarrow> string option" where
  "state_to_region = map_of state_to_region_items"

text \<open>
  \<open>region_centers\<close>: each region with its dictionary of the keys \<open>lat\<close> and \<open>lon\<close>.
\<close>

definition region_centers :: "(string \<times> (string \<times> int) list) list" where
  "region_centers =
    [(''Southwest'', [(''lat'', 34), (''lon'', - 106)]),
     (''West'', [(''lat'', 42), (''lon'', - 117)]),
     (''Southeast'', [(''lat'', 32), (''lon'', - 83)]),
     (''Midwest'', [(''lat'', 42), (''lon'', - 92)]),
     (''Mid-Atlantic'', [(''lat'', 40), (''lon'', - 76)]),
     (''Northeast'', [(''lat'', 43), (''lon'', - 71)])]"

section \<open>The identifier column and its lookup\<close>

text \<open>
  The number of binary digits of a positive integer, and the integer that the double
  nearest to an integer holds: an integer of at most 53 binary digits is held exactly,
  a longer one is rounded to 53 digits, a tie going to the even neighbour.
\<close>

function bit_length :: "int \<Rightarrow> nat" where
  "bit_length n = (if n \<le> 0 then 0 else Suc (bit_length (n div 2)))"
  by pat_completeness auto
termination
  by (relation "measure nat") auto

definition float64 :: "int \<Rightarrow> int" where
  "float64 n =
     (let a = \<bar>n\<bar>; l = bit_length a
      in if l \<le> 53 then n
         else
           let e = l - 53;
               q = a div 2 ^ e;
               r = a mod 2 ^ e;
               h = 2 ^ (e - 1);
               q' = (if h < r \<or> (r = h \<and> odd q) then q + 1 else q)
           in sgn n * (q' * 2 ^ e))"

text \<open>
  \<open>pd.DataFrame(programs_data)\<close> holds the column \<open>device_category_id\<close> as \<open>int64\<close>
  when no row has a null there, and as \<open>float64\<close>, the nulls being \<open>NaN\<close>, when one has.
  The filter on the state code keeps the type of the column.
\<close>

datatype dtype = Int64 | Float64

definition id_dtype :: "program list \<Rightarrow> dtype" where
  "id_dtype df_programs =
     (if None \<in> set (map device_category_id df_programs) then Float64 else Int64)"

text \<open>
  \<open>Series.map(device_dict)\<close> turns the dictionary into a series indexed by its keys and
  looks the cells up in that index. An \<open>int64\<close> column is compared with the keys as it
  is. For a \<open>float64\<close> column the keys are cast to \<open>float64\<close> as well, so a key and a
  cell meet when they round to the same double; of several such keys the last one of
  the dictionary is taken. A null cell or a cell that meets no key gives a null cell.
\<close>

definition same_id :: "dtype \<Rightarrow> 64 word \<Rightarrow> 64 word \<Rightarrow> bool" where
  "same_id t k i =
     (case t of Int64 \<Rightarrow> k = i | Float64 \<Rightarrow> float64 (sint k) = float64 (sint i))"

definition map_ids :: "dtype \<Rightarrow> device_dict \<Rightarrow> 64 word option \<Rightarrow> string option" where
  "map_ids t device_dict c =
     (case c of
        None \<Rightarrow> None
      | Some i \<Rightarrow>
          (case rev (filter (\<lambda>(k, v). same_id t k i) device_dict) of
             [] \<Rightarrow> None
           | (k, v) # _ \<Rightarrow> Some v))"

section \<open>Building the table of US programs\<close>

text \<open>\<open>Series.dropna()\<close> on a column.\<close>

fun dropna :: "'a option list \<Rightarrow> 'a list" where
  "dropna [] = []"
| "dropna (None # xs) = dropna xs"
| "dropna (Some x # xs) = x # dropna xs"

text \<open>
  \<open>df['state_province'].str.len() == 2\<close>: the length of a null cell is \<open>NaN\<close>, which is
  not 2.
\<close>

definition str_len_is_2 :: "string option \<Rightarrow> bool" where
  "str_len_is_2 c = (case c of None \<Rightarrow> False | Some s \<Rightarrow> length s = 2)"

text \<open>\<open>Series.map(dict)\<close> on one cell: a null cell or a missing key gives a null cell.\<close>

definition map_cell :: "('k \<Rightarrow> 'v option) \<Rightarrow> 'k option \<Rightarrow> 'v option" where
  "map_cell d c = (case c of None \<Rightarrow> None | Some k \<Rightarrow> d k)"

definition add_columns :: "dtype \<Rightarrow> device_dict \<Rightarrow> program \<Rightarrow> us_program" where
  "add_columns t device_dict p =
     \<lparr>state_province = state_province p,
      device_category_id = device_category_id p,
      device_name = map_ids t device_dict (device_category_id p),
      region = map_cell state_to_region (state_province p)\<rparr>"

definition df_us_programs :: "program list \<Rightarrow> device_dict \<Rightarrow> us_program list" where
  "df_us_programs df_programs device_dict =
     (if df_programs \<noteq> [] \<and> device_dict \<noteq> []
      then map (add_columns (id_dtype df_programs) device_dict)
             (filter (\<lambda>p. str_len_is_2 (state_province p)) df_programs)
      else [])"


section \<open>Bulk selection buttons\<close>


definition update_region_selection :: "string option \<Rightarrow> string list option" where
  "update_region_selection triggered =
     (case triggered of
        None \<Rightarrow> None
      | Some button_id \<Rightarrow>
          if button_id = ''select-all-regions'' then Some (remdups (map snd state_to_region_items))
          else if button_id = ''clear-all-regions'' then Some []
          else None)"

section \<open>Filtering and aggregation\<close>

text \<open>\<open>Series.isin(values)\<close> on one cell, for a list of strings: a null cell is in no such list.\<close>

definition isin :: "'a option \<Rightarrow> 'a list \<Rightarrow> bool" where
  "isin c vs = (case c of None \<Rightarrow> False | Some v \<Rightarrow> v \<in> set vs)"

text \<open>
  The two filtering steps of \<open>update_map\<close>. An empty selection (also Dash's \<open>None\<close>,
  which is falsy like \<open>[]\<close>) gives \<open>iloc[0:0]\<close>, the frame without rows.
\<close>

definition filtered_df :: "us_program list \<Rightarrow> string list \<Rightarrow> string list \<Rightarrow> us_program list" where
  "filtered_df df selected_devices selected_regions =
     (let f1 = (if selected_devices \<noteq> []
                then filter (\<lambda>r. isin (device_name r) selected_devices) df
                else [])
      in if selected_regions \<noteq> []
         then filter (\<lambda>r. isin (region r) selected_regions) f1
         else [])"

text \<open>
  \<open>df.groupby(key).size()\<close>: rows with a null key are dropped, the groups come in
  ascending order of the key (\<open>sort=True\<close> is the default), each with its number of rows.
\<close>

definition groupby_size :: "('r \<Rightarrow> 'k option) \<Rightarrow> 'r list \<Rightarrow> ('k :: linorder \<times> nat) list" where
  "groupby_size key df =
     (let ks = dropna (map key df)
      in map (\<lambda>k. (k, count_list ks k)) (sort (remdups ks)))"

text \<open>The key of \<open>groupby(['region', 'device_name'])\<close>: null when either cell is.\<close>

definition region_device_key :: "us_program \<Rightarrow> (string \<times> string) option" where
  "region_device_key r =
     (case region r of
        None \<Rightarrow> None
      | Some g \<Rightarrow> (case device_name r of None \<Rightarrow> None | Some d \<Rightarrow> Some (g, d)))"

text \<open>
  \<open>state_totals\<close> with its columns \<open>state\<close>, \<open>programs\<close> and \<open>region\<close>, the last one
  looked up in \<open>state_to_region\<close>.
\<close>

definition state_totals :: "us_program list \<Rightarrow> (string \<times> nat \<times> string option) list" where
  "state_totals fdf =
     map (\<lambda>(s, n). (s, n, state_to_region s)) (groupby_size state_province fdf)"

definition region_totals :: "us_program list \<Rightarrow> (string \<times> nat) list" where
  "region_totals fdf = groupby_size region fdf"

definition region_device_counts :: "us_program list \<Rightarrow> ((string \<times> string) \<times> nat) list" where
  "region_device_counts fdf = groupby_size region_device_key fdf"

text \<open>
  \<open>values[0]\<close> on an array raises \<open>IndexError\<close> when the array is empty, and
  \<open>d[key]\<close> on a dictionary raises \<open>KeyError\<close> when the key is missing.
\<close>

definition index0 :: "'a list \<Rightarrow> error + 'a" where
  "index0 xs = (case xs of [] \<Rightarrow> Inl IndexError | x # _ \<Rightarrow> Inr x)"

definition getitem :: "('k \<times> 'v) list \<Rightarrow> 'k \<Rightarrow> error + 'v" where
  "getitem d k = (case map_of d k of None \<Rightarrow> Inl KeyError | Some v \<Rightarrow> Inr v)"

text \<open>
  The hover text of one state: either the region's name, its total and its device lines
  in the order of \<open>region_device_counts\<close>, or the fallback text with the state's code.
  In \<open>region and region in selected_regions\<close> a null region is the float \<open>NaN\<close>, which
  is truthy and is in no list of strings; the empty string is falsy. The region's total
  is \<open>region_total[0] if len(region_total) > 0 else 0\<close>.
\<close>

datatype hover_text =
  RegionHover string nat "(string \<times> nat) list"
| NoDataForSelectedFilters string

definition hover_for ::
  "string list \<Rightarrow> (string \<times> nat) list \<Rightarrow> ((string \<times> string) \<times> nat) list \<Rightarrow>
   string \<times> nat \<times> string option \<Rightarrow> error + hover_text"
where
  "hover_for selected_regions rtotals rdcounts state_row =
     (case state_row of (state, programs, reg) \<Rightarrow>
        (case reg of
           None \<Rightarrow> Inr (NoDataForSelectedFilters state)
         | Some g \<Rightarrow>
             if g \<noteq> [] \<and> g \<in> set selected_regions then
               let region_total = map snd (filter (\<lambda>(k, n). k = g) rtotals)
               in (case (if length region_total > 0 then index0 region_total else Inr 0) of
                     Inl e \<Rightarrow> Inl e
                   | Inr region_total \<Rightarrow>
                       let region_devices = filter (\<lambda>((k, d), c). k = g) rdcounts
                       in Inr (RegionHover g region_total
                                 (map (\<lambda>((k, d), c). (d, c)) region_devices)))
             else Inr (NoDataForSelectedFilters state)))"

text \<open>
  The loop over the rows of \<open>state_totals\<close>: each pass appends one text to
  \<open>hover_texts\<close>; an exception of a pass ends the loop.
\<close>

fun hover_loop ::
  "string list \<Rightarrow> (string \<times> nat) list \<Rightarrow> ((string \<times> string) \<times> nat) list \<Rightarrow>
   (string \<times> nat \<times> string option) list \<Rightarrow> hover_text list \<Rightarrow> error + hover_text list"
where
  "hover_loop selected_regions rtotals rdcounts [] hover_texts = Inr hover_texts"
| "hover_loop selected_regions rtotals rdcounts (state_row # rows) hover_texts =
     (case hover_for selected_regions rtotals rdcounts state_row of
        Inl e \<Rightarrow> Inl e
      | Inr hover_text \<Rightarrow>
          hover_loop selected_regions rtotals rdcounts rows (hover_texts @ [hover_text]))"

definition hover_texts :: "string list \<Rightarrow> us_program list \<Rightarrow> error + hover_text list" where
  "hover_texts selected_regions fdf =
     hover_loop selected_regions (region_totals fdf) (region_device_counts fdf)
       (state_totals fdf) []"

text \<open>
  \<open>state_totals['hover_text'] = hover_texts\<close> raises \<open>ValueError\<close> when the list does
  not have one entry per row.
\<close>

definition assign_column :: "'a list \<Rightarrow> 'b list \<Rightarrow> error + ('a \<times> 'b) list" where
  "assign_column rows col =
     (if length col = length rows then Inr (zip rows col) else Inl ValueError)"

text \<open>
  The loop over \<open>region_centers.items()\<close>: a selected region gets a text trace at
  \<open>coords['lon']\<close> and \<open>coords['lat']\<close>, kept here as the text with its longitude and
  latitude.
\<close>

fun add_region_labels ::
  "string list \<Rightarrow> (string \<times> (string \<times> int) list) list \<Rightarrow> (string \<times> int \<times> int) list \<Rightarrow>
   error + (string \<times> int \<times> int) list"
where
  "add_region_labels selected_regions [] traces = Inr traces"
| "add_region_labels selected_regions ((name, coords) # items) traces =
     (if name \<in> set selected_regions then
        (case getitem coords ''lon'' of
           Inl e \<Rightarrow> Inl e
         | Inr lon \<Rightarrow>
             (case getitem coords ''lat'' of
                Inl e \<Rightarrow> Inl e
              | Inr lat \<Rightarrow>
                  add_region_labels selected_regions items (traces @ [(name, lon, lat)])))
      else add_region_labels selected_regions items traces)"

text \<open>
  \<open>groupby('device_name').size().sort_values(ascending=False)\<close>: the devices by
  descending count. The default sort of pandas is not stable, so the order among
  devices of one and the same count is not fixed by the source; such devices are kept
  together here, as one group under their count, the groups in descending order of the
  count.
\<close>

definition device_breakdown :: "us_program list \<Rightarrow> (nat \<times> string list) list" where
  "device_breakdown fdf =
     (let sizes = groupby_size device_name fdf
      in map (\<lambda>c. (c, map fst (filter (\<lambda>(d, n). n = c) sizes)))
           (rev (sort (remdups (map snd sizes)))))"

text \<open>
  The figure and the summary that \<open>update_map\<close> returns. The title and the paragraphs
  are kept by what they say, the formatted numbers as numbers.
\<close>

datatype title =
  NoDataAvailable
| NoDataAvailableForSelectedFilters
| ProgramsForSelectedDeviceTypes nat

record figure =
  fig_title :: title
  locations :: "string list"
  z :: "nat list"
  customdata :: "hover_text list"
  region_labels :: "(string \<times> int \<times> int) list"
  geos_updated :: bool

datatype summary =
  SummaryNoDataAvailable
| SummaryNoProgramsMatch
| SummaryStatistics nat nat nat "(nat \<times> string list) list"

definition empty_figure :: "title \<Rightarrow> bool \<Rightarrow> figure" where
  "empty_figure t g =
     \<lparr>fig_title = t, locations = [], z = [], customdata = [], region_labels = [],
      geos_updated = g\<rparr>"

definition update_map ::
  "us_program list \<Rightarrow> string list \<Rightarrow> string list \<Rightarrow> error + (figure \<times> summary)"
where
  "update_map df selected_devices selected_regions =
     (if df = [] then Inr (empty_figure NoDataAvailable False, SummaryNoDataAvailable)
      else
        let fdf = filtered_df df selected_devices selected_regions
        in if length fdf > 0 then
             (case hover_texts selected_regions fdf of
                Inl e \<Rightarrow> Inl e
              | Inr texts \<Rightarrow>
                  (case assign_column (state_totals fdf) texts of
                     Inl e \<Rightarrow> Inl e
                   | Inr rows \<Rightarrow>
                       (case add_region_labels selected_regions region_centers [] of
                          Inl e \<Rightarrow> Inl e
                        | Inr traces \<Rightarrow>
                            let fig =
                                  \<lparr>fig_title = ProgramsForSelectedDeviceTypes (length fdf),
                                   locations = map (\<lambda>((s, n, g), h). s) rows,
                                   z = map (\<lambda>((s, n, g), h). n) rows,
                                   customdata = map snd rows,
                                   region_labels = traces,
                                   geos_updated = True\<rparr>;
                                total_programs = length fdf;
                                total_states = length (state_totals fdf);
                                total_regions = length (region_totals fdf)
                            in Inr (fig,
                                    SummaryStatistics total_programs total_states total_regions
                                      (device_breakdown fdf)))))
           else Inr (empty_figure NoDataAvailableForSelectedFilters True, SummaryNoProgramsMatch))"

text \<open>What a result shows: the count per state on the map, and the total of the summary.\<close>

definition state_counts :: "figure \<times> summary \<Rightarrow> (string \<times> nat) list" where
  "state_counts res = zip (locations (fst res)) (z (fst res))"

fun total_programs :: "figure \<times> summary \<Rightarrow> nat" where
  "total_programs (fig, SummaryStatistics n s g b) = n"
| "total_programs (fig, SummaryNoDataAvailable) = 0"
| "total_programs (fig, SummaryNoProgramsMatch) = 0"

section \<open>The device order the specification describes\<close>

text \<open>
  This definition follows the words of the specification, not the source: the devices
  of a region in the order in which the filtered rows first show them, each with its
  number of rows. It is compared below with the device lines that \<open>hover_for\<close> builds.
\<close>

definition encounter_order_breakdown :: "us_program list \<Rightarrow> string \<Rightarrow> (string \<times> nat) list" where
  "encounter_order_breakdown fdf g =
     (let ds = dropna (map device_name (filter (\<lambda>r. region r = Some g) fdf))
      in map (\<lambda>d. (d, count_list ds d)) (rev (remdups (rev ds))))"

section \<open>Small data sets\<close>

text \<open>
  Two device categories and six programs: two in California, one in Texas, one with the
  two-letter code \<open>DC\<close> that has no region, one with a three-letter code, and one in
  New York whose device category is not among the categories.
\<close>

definition example_devices :: "device_category list" where
  "example_devices = [\<lparr>dc_id = 1, dc_name = ''Battery''\<rparr>, \<lparr>dc_id = 2, dc_name = ''Solar''\<rparr>]"

definition example_programs :: "program list" where
  "example_programs =
    [\<lparr>state_province = Some ''CA'', device_category_id = Some 2\<rparr>,
     \<lparr>state_province = Some ''CA'', device_category_id = Some 1\<rparr>,
     \<lparr>state_province = Some ''TX'', device_category_id = Some 2\<rparr>,
     \<lparr>state_province = Some ''DC'', device_category_id = Some 2\<rparr>,
     \<lparr>state_province = Some ''ONT'', device_category_id = Some 2\<rparr>,
     \<lparr>state_province = Some ''NY'', device_category_id = Some 7\<rparr>]"

definition example_dict :: device_dict where
  "example_dict = [(1, ''Battery''), (2, ''Solar'')]"

definition example_table :: "us_program list" where
  "example_table =
    [\<lparr>state_province = Some ''CA'', device_category_id = Some 2,
      device_name = Some ''Solar'', region = Some ''West''\<rparr>,
     \<lparr>state_province = Some ''CA'', device_category_id = Some 1,
      device_name = Some ''Battery'', region = Some ''West''\<rparr>,
     \<lparr>state_province = Some ''TX'', device_category_id = Some 2,
      device_name = Some ''Solar'', region = Some ''Southwest''\<rparr>,
     \<lparr>state_province = Some ''DC'', device_category_id = Some 2,
      device_name = Some ''Solar'', region = None\<rparr>,
     \<lparr>state_province = Some ''NY'', device_category_id = Some 7,
      device_name = None, region = Some ''Mid-Atlantic''\<rparr>]"

text \<open>
  Five programs of the West with three devices: the rows show Solar first, then the
  EV charger, then the battery; the EV charger has two rows in California and one in
  Oregon, the other two devices one row each.
\<close>

definition west_table :: "us_program list" where
  "west_table =
    [\<lparr>state_province = Some ''CA'', device_category_id = Some 3,
      device_name = Some ''Solar'', region = Some ''West''\<rparr>,
     \<lparr>state_province = Some ''CA'', device_category_id = Some 2,
      device_name = Some ''EV Charger'', region = Some ''West''\<rparr>,
     \<lparr>state_province = Some ''OR'', device_category_id = Some 1,
      device_name = Some ''Battery'', region = Some ''West''\<rparr>,
     \<lparr>state_province = Some ''OR'', device_category_id = Some 2,
      device_name = Some ''EV Charger'', region = Some ''West''\<rparr>,
     \<lparr>state_province = Some ''CA'', device_category_id = Some 2,
      device_name = Some ''EV Charger'', region = Some ''West''\<rparr>]"



text \<open>The result of \<open>update_map\<close> on the programs of the West, all devices selected.\<close>

definition west_result :: "figure \<times> summary" where
  "west_result =
    (\<lparr>fig_title = ProgramsForSelectedDeviceTypes 5,
      locations = [''CA'', ''OR''], z = [3, 2],
      customdata =
        [RegionHover ''West'' 5 [(''Battery'', 1), (''EV Charger'', 3), (''Solar'', 1)],
         RegionHover ''West'' 5 [(''Battery'', 1), (''EV Charger'', 3), (''Solar'', 1)]],
      region_labels = [(''West'', - 117, 42)], geos_updated = True\<rparr>,
     SummaryStatistics 5 2 1 [(3, [''EV Charger'']), (1, [''Battery'', ''Solar''])])"

section \<open>Facts about filtering and the shape of the result\<close>

lemma example_load:
  "load_data (Inr example_devices) (Inr example_programs) = (example_programs, example_dict)"
  unfolding example_devices_def example_programs_def example_dict_def by code_simp

lemma example_table_built: "df_us_programs example_programs example_dict = example_table"
  unfolding example_programs_def example_dict_def example_table_def by code_simp

lemma filtered_df_eq:
  "filtered_df df sd sr =
     (if sd \<noteq> [] \<and> sr \<noteq> []
      then filter (\<lambda>r. isin (device_name r) sd \<and> isin (region r) sr) df else [])"
  by (simp add: filtered_df_def Let_def conj_commute)

lemma filtered_df_Nil: "filtered_df [] sd sr = []"
  by (simp add: filtered_df_eq)

lemma filtered_df_subset: "set (filtered_df df sd sr) \<subseteq> set df"
  by (auto simp: filtered_df_eq)

lemma groupby_size_Nil: "groupby_size key [] = []"
  by (simp add: groupby_size_def)

lemma state_totals_Nil: "state_totals [] = []"
  by (simp add: state_totals_def groupby_size_Nil)

text \<open>
  The guard \<open>len(region_total) > 0\<close> keeps \<open>region_total[0]\<close> from raising, so the
  hover text of a row is always built.
\<close>

lemma hover_for_total: "\<exists>h. hover_for sr rt rdc row = Inr h"
  by (auto simp: hover_for_def index0_def Let_def split: prod.splits option.splits list.splits)

text \<open>The loop appends exactly one text per row, in the order of the rows.\<close>

lemma hover_loop_result:
  "\<exists>hs. hover_loop sr rt rdc rows acc = Inr (acc @ hs) \<and>
        list_all2 (\<lambda>row h. hover_for sr rt rdc row = Inr h) rows hs"
proof (induction rows arbitrary: acc)
  case Nil
  show ?case by simp
next
  case (Cons row rows)
  obtain h where h: "hover_for sr rt rdc row = Inr h"
    using hover_for_total by blast
  from Cons.IH [of "acc @ [h]"] obtain hs where
    "hover_loop sr rt rdc rows (acc @ [h]) = Inr ((acc @ [h]) @ hs)"
    "list_all2 (\<lambda>row h. hover_for sr rt rdc row = Inr h) rows hs"
    by blast
  with h show ?case
    by (intro exI [of _ "h # hs"]) simp
qed

lemma hover_texts_result:
  "\<exists>hs. hover_texts sr fdf = Inr hs \<and>
        list_all2 (\<lambda>row h. hover_for sr (region_totals fdf) (region_device_counts fdf) row = Inr h)
          (state_totals fdf) hs"
  using hover_loop_result [of sr "region_totals fdf" "region_device_counts fdf" "state_totals fdf" "[]"]
  by (simp add: hover_texts_def)

lemma hover_texts_Inr: "hover_texts sr fdf = Inr (projr (hover_texts sr fdf))"
  using hover_texts_result [of sr fdf] by auto

lemma hover_texts_all2:
  "list_all2 (\<lambda>row h. hover_for sr (region_totals fdf) (region_device_counts fdf) row = Inr h)
     (state_totals fdf) (projr (hover_texts sr fdf))"
  using hover_texts_result [of sr fdf] by auto

lemma length_hover_texts: "length (projr (hover_texts sr fdf)) = length (state_totals fdf)"
  using hover_texts_all2 [of sr fdf] by (simp add: list_all2_lengthD)

lemma hover_texts_Nil: "hover_texts sr [] = Inr []"
  by (simp add: hover_texts_def state_totals_Nil)

text \<open>Every dictionary of \<open>region_centers\<close> has the keys \<open>lon\<close> and \<open>lat\<close>.\<close>

lemma add_region_labels_result:
  assumes "list_all (\<lambda>(name, coords). \<not> isl (getitem coords ''lon'') \<and> \<not> isl (getitem coords ''lat''))
             items"
  shows "\<exists>traces. add_region_labels sr items acc = Inr traces"
  using assms
proof (induction items arbitrary: acc)
  case Nil
  show ?case by simp
next
  case (Cons item items)
  obtain name coords where item: "item = (name, coords)" by (cases item)
  from Cons.prems item obtain lon lat where
    "getitem coords ''lon'' = Inr lon" "getitem coords ''lat'' = Inr lat"
    by (cases "getitem coords ''lon''"; cases "getitem coords ''lat''") auto
  moreover from Cons.prems have
    "\<exists>traces. add_region_labels sr items (acc @ [(name, lon, lat)]) = Inr traces"
    "\<exists>traces. add_region_labels sr items acc = Inr traces"
    by (auto intro: Cons.IH)
  ultimately show ?case using item by simp
qed

lemma region_labels_Inr:
  "add_region_labels sr region_centers [] =
     Inr (projr (add_region_labels sr region_centers []))"
proof -
  have "list_all (\<lambda>(name, coords). \<not> isl (getitem coords ''lon'') \<and> \<not> isl (getitem coords ''lat''))
          region_centers"
    by (simp add: region_centers_def getitem_def)
  from add_region_labels_result [OF this, of sr "[]"] show ?thesis by auto
qed

lemma zip_two_maps: "zip (map f xs) (map g xs) = map (\<lambda>x. (f x, g x)) xs"
  by (induction xs) simp_all

text \<open>The three outcomes of \<open>update_map\<close>, with the possible exceptions resolved.\<close>

lemma update_map_cases:
  "update_map df sd sr =
     Inr (if df = [] then (empty_figure NoDataAvailable False, SummaryNoDataAvailable)
          else if filtered_df df sd sr = []
          then (empty_figure NoDataAvailableForSelectedFilters True, SummaryNoProgramsMatch)
          else
            (\<lparr>fig_title = ProgramsForSelectedDeviceTypes (length (filtered_df df sd sr)),
              locations = map (\<lambda>(s, n, g). s) (state_totals (filtered_df df sd sr)),
              z = map (\<lambda>(s, n, g). n) (state_totals (filtered_df df sd sr)),
              customdata = projr (hover_texts sr (filtered_df df sd sr)),
              region_labels = projr (add_region_labels sr region_centers []),
              geos_updated = True\<rparr>,
             SummaryStatistics (length (filtered_df df sd sr))
               (length (state_totals (filtered_df df sd sr)))
               (length (region_totals (filtered_df df sd sr)))
               (device_breakdown (filtered_df df sd sr))))"
proof -
  let ?st = "state_totals (filtered_df df sd sr)"
  let ?ht = "projr (hover_texts sr (filtered_df df sd sr))"
  have len: "length ?ht = length ?st" by (rule length_hover_texts)
  have a: "map (\<lambda>((s, n, g), h). s) (zip ?st ?ht) = map (\<lambda>(s, n, g). s) ?st"
    using len by (intro nth_equalityI) (auto simp: split_def)
  have b: "map (\<lambda>((s, n, g), h). n) (zip ?st ?ht) = map (\<lambda>(s, n, g). n) ?st"
    using len by (intro nth_equalityI) (auto simp: split_def)
  have c: "map snd (zip ?st ?ht) = ?ht"
    using len by simp
  have h: "hover_texts sr (filtered_df df sd sr) = Inr ?ht"
    by (rule hover_texts_Inr)
  have t: "add_region_labels sr region_centers [] =
             Inr (projr (add_region_labels sr region_centers []))"
    by (rule region_labels_Inr)
  have asg: "assign_column ?st ?ht = Inr (zip ?st ?ht)"
    by (simp add: assign_column_def len)
  show ?thesis
    unfolding update_map_def Let_def
    by (subst h, subst t) (simp add: asg a b c)
qed

lemma total_programs_update_map:
  "update_map df sd sr = Inr res \<Longrightarrow> total_programs res = length (filtered_df df sd sr)"
  by (auto simp: update_map_cases filtered_df_Nil split: if_splits)

lemma state_counts_update_map:
  assumes "update_map df sd sr = Inr res"
  shows "state_counts res = map (\<lambda>(s, n, g). (s, n)) (state_totals (filtered_df df sd sr))"
proof (cases "df = [] \<or> filtered_df df sd sr = []")
  case True
  with assms show ?thesis
    by (auto simp: update_map_cases filtered_df_Nil state_counts_def empty_figure_def
          state_totals_Nil split: if_splits)
next
  case False
  with assms show ?thesis
    by (auto simp: update_map_cases state_counts_def zip_two_maps split_def)
qed

lemma customdata_update_map:
  "update_map df sd sr = Inr res \<Longrightarrow>
     customdata (fst res) = projr (hover_texts sr (filtered_df df sd sr))"
  by (auto simp: update_map_cases empty_figure_def hover_texts_Nil filtered_df_Nil
        split: if_splits)

lemma locations_update_map:
  "update_map df sd sr = Inr res \<Longrightarrow>
     locations (fst res) = map (\<lambda>(s, n, g). s) (state_totals (filtered_df df sd sr))"
  by (auto simp: update_map_cases empty_figure_def state_totals_Nil filtered_df_Nil
        split: if_splits)

text \<open>The group sizes add up to the number of rows whose key is not null.\<close>

lemma sum_groupby_size:
  "sum_list (map snd (groupby_size key df)) = length (dropna (map key df))"
proof -
  let ?ks = "dropna (map key df)"
  have "sum_list (map snd (groupby_size key df)) =
          sum_list (map (count_list ?ks) (sort (remdups ?ks)))"
    by (simp add: groupby_size_def Let_def comp_def)
  also have "\<dots> = sum (count_list ?ks) (set (sort (remdups ?ks)))"
    by (rule sum_list_distinct_conv_sum_set) simp
  also have "\<dots> = length ?ks"
    by (simp add: sum_count_set)
  finally show ?thesis .
qed

lemma length_dropna_all_Some:
  "list_all (\<lambda>c. c \<noteq> None) cs \<Longrightarrow> length (dropna cs) = length cs"
  by (induction cs rule: dropna.induct) simp_all

lemma set_dropna: "set (dropna cs) = {x. Some x \<in> set cs}"
  by (induction cs rule: dropna.induct) auto

text \<open>Every row of the built table has a two-letter code and the region of that code.\<close>

lemma df_us_programs_row:
  assumes "r \<in> set (df_us_programs ps dd)"
  shows "\<exists>s. state_province r = Some s \<and> length s = 2 \<and> region r = state_to_region s"
proof -
  from assms obtain p where
    p: "str_len_is_2 (state_province p)" "r = add_columns (id_dtype ps) dd p"
    by (auto simp: df_us_programs_def split: if_splits)
  then show ?thesis
    by (auto simp: str_len_is_2_def add_columns_def map_cell_def split: option.splits)
qed

lemma sum_state_totals_base:
  "sum_list (map (\<lambda>(s, n, g). n) (state_totals (filtered_df (df_us_programs ps dd) sd sr)))
     = length (filtered_df (df_us_programs ps dd) sd sr)"
proof -
  let ?fdf = "filtered_df (df_us_programs ps dd) sd sr"
  have "list_all (\<lambda>c. c \<noteq> None) (map state_province ?fdf)"
    using filtered_df_subset [of "df_us_programs ps dd" sd sr] df_us_programs_row [of _ ps dd]
    by (fastforce simp: list_all_iff)
  then have "length (dropna (map state_province ?fdf)) = length ?fdf"
    using length_dropna_all_Some by fastforce
  moreover have "map (\<lambda>(s, n, g). n) (state_totals ?fdf) =
                   map snd (groupby_size state_province ?fdf)"
    by (simp add: state_totals_def split_def comp_def)
  ultimately show ?thesis
    by (simp add: sum_groupby_size)
qed

lemma length_filtered_df_mono:
  assumes "set sd' \<subseteq> set sd" and "set sr' \<subseteq> set sr"
  shows "length (filtered_df df sd' sr') \<le> length (filtered_df df sd sr)"
proof (cases "sd' \<noteq> [] \<and> sr' \<noteq> []")
  case True
  with assms have ne: "sd \<noteq> [] \<and> sr \<noteq> []" by auto
  have "length (filter (\<lambda>r. isin (device_name r) sd' \<and> isin (region r) sr') df)
      \<le> length (filter (\<lambda>r. isin (device_name r) sd \<and> isin (region r) sr) df)"
  proof (induction df)
    case Nil
    show ?case by simp
  next
    case (Cons r df)
    have "isin (device_name r) sd' \<and> isin (region r) sr' \<Longrightarrow>
          isin (device_name r) sd \<and> isin (region r) sr"
      using assms by (auto simp: isin_def split: option.splits)
    with Cons show ?case by auto
  qed
  with True ne show ?thesis by (simp add: filtered_df_eq)
next
  case False
  then show ?thesis by (auto simp: filtered_df_eq)
qed

lemma update_ne: "AList.update k v d \<noteq> []"
  by (cases d) simp_all

lemma foldl_update_ne:
  "d \<noteq> [] \<Longrightarrow> foldl (\<lambda>d (k, v). AList.update k v d) d kvs \<noteq> []"
  by (induction kvs arbitrary: d) (simp_all add: update_ne split_def)

lemma dict_zip_ne: "xs \<noteq> [] \<Longrightarrow> dict_zip (map f xs) (map g xs) \<noteq> []"
  by (cases xs) (simp_all add: dict_zip_def foldl_update_ne update_ne)

lemma load_data_cases:
  "load_data d p = (df, dd) \<Longrightarrow>
     (df = [] \<and> dd = []) \<or>
     (\<exists>dcs. d = Inr dcs \<and> dcs \<noteq> [] \<and> p = Inr df \<and> df \<noteq> [] \<and>
            dd = dict_zip (map dc_id dcs) (map dc_name dcs))"
  by (auto simp: load_data_def load_data_try_def Let_def split: sum.splits if_splits)

text \<open>A loaded table with rows comes with a dictionary that is not empty.\<close>

lemma load_data_dict_ne:
  "load_data d p = (df, dd) \<Longrightarrow> df \<noteq> [] \<Longrightarrow> dd \<noteq> []"
proof -
  assume a: "load_data d p = (df, dd)" and b: "df \<noteq> []"
  from load_data_cases [OF a] b have
    "\<exists>dcs :: device_category list.
       dcs \<noteq> [] \<and> dd = dict_zip (map dc_id dcs) (map dc_name dcs)" by auto
  then obtain dcs :: "device_category list" where
    dcs: "dcs \<noteq> []" "dd = dict_zip (map dc_id dcs) (map dc_name dcs)"
    by (elim exE conjE)
  from dcs(1) have "dict_zip (map dc_id dcs) (map dc_name dcs) \<noteq> []"
    by (rule dict_zip_ne)
  with dcs(2) show ?thesis by simp
qed

text \<open>A row that the filters drop can be taken out of the table without any effect.\<close>

lemma filtered_df_removeAll:
  assumes "r \<notin> set (filtered_df df sd sr)"
  shows "filtered_df (removeAll r df) sd sr = filtered_df df sd sr"
proof (cases "sd \<noteq> [] \<and> sr \<noteq> []")
  case True
  with assms have "\<not> (isin (device_name r) sd \<and> isin (region r) sr) \<or> r \<notin> set df"
    by (auto simp: filtered_df_eq)
  then have "filter (\<lambda>r. isin (device_name r) sd \<and> isin (region r) sr) (removeAll r df)
           = filter (\<lambda>r. isin (device_name r) sd \<and> isin (region r) sr) df"
    by (induction df) auto
  with True show ?thesis by (simp add: filtered_df_eq)
next
  case False
  then show ?thesis by (auto simp: filtered_df_eq)
qed

lemma null_region_filtered_out: "region r = None \<Longrightarrow> r \<notin> set (filtered_df df sd sr)"
  by (auto simp: filtered_df_eq isin_def)





text \<open>No region name of \<open>state_to_region\<close> is the empty string.\<close>

lemma state_to_region_nonempty: "state_to_region s = Some g \<Longrightarrow> g \<noteq> []"
proof -
  assume "state_to_region s = Some g"
  then have "(s, g) \<in> set state_to_region_items"
    unfolding state_to_region_def by (rule map_of_SomeD)
  then show ?thesis by (auto simp: state_to_region_items_def)
qed

lemma set_groupby_size:
  "set (groupby_size key df) =
     (\<lambda>k. (k, count_list (dropna (map key df)) k)) ` set (dropna (map key df))"
  by (simp add: groupby_size_def Let_def)

lemma state_totals_row:
  assumes "(s, n, g) \<in> set (state_totals fdf)"
  shows "g = state_to_region s \<and> (\<exists>r \<in> set fdf. state_province r = Some s)"
  using assms by (auto simp: state_totals_def set_groupby_size set_dropna)

text \<open>
  In a table built by \<open>df_us_programs\<close> the region column is the region of the state
  code, so the region looked up for a counted state is a selected one.
\<close>

lemma base_state_totals_region:
  assumes "(s, n, g) \<in> set (state_totals (filtered_df (df_us_programs ps dd) sd sr))"
  shows "\<exists>rg. g = Some rg \<and> state_to_region s = Some rg \<and> rg \<noteq> [] \<and> rg \<in> set sr"
proof -
  from state_totals_row [OF assms] obtain r where
    g: "g = state_to_region s" and
    r: "r \<in> set (filtered_df (df_us_programs ps dd) sd sr)" "state_province r = Some s"
    by auto
  from r(1) have "r \<in> set (df_us_programs ps dd)" and "isin (region r) sr"
    by (auto simp: filtered_df_eq split: if_splits)
  moreover from this(1) r(2) have "region r = state_to_region s"
    using df_us_programs_row [of r ps dd] by auto
  ultimately obtain rg where "state_to_region s = Some rg" "rg \<in> set sr"
    by (auto simp: isin_def split: option.splits)
  with g state_to_region_nonempty [of s rg] show ?thesis by simp
qed

lemma hover_for_region:
  "g \<noteq> [] \<Longrightarrow> g \<in> set sr \<Longrightarrow>
     \<exists>t devs. hover_for sr rt rdc (s, n, Some g) = Inr (RegionHover g t devs)"
  by (auto simp: hover_for_def index0_def Let_def split: list.splits)

text \<open>
  What a hover text with device lines says about the row it was built for: the region
  is the one of the row and is selected, the total is the first entry of the region in
  \<open>region_totals\<close> or 0, and the device lines are the rows of that region in
  \<open>region_device_counts\<close>.
\<close>

lemma hover_for_RegionHover:
  assumes "hover_for sr rt rdc (s, n, reg) = Inr (RegionHover g t devs)"
  shows "reg = Some g \<and> g \<in> set sr \<and>
         t = (case map snd (filter (\<lambda>(k, n). k = g) rt) of [] \<Rightarrow> 0 | x # _ \<Rightarrow> x) \<and>
         devs = map (\<lambda>((k, d), c). (d, c)) (filter (\<lambda>((k, d), c). k = g) rdc)"
  using assms
  by (auto simp: hover_for_def index0_def Let_def split: option.splits if_splits list.splits)

section \<open>The total and the device lines of one region\<close>

lemma count_region:
  "count_list (dropna (map region fdf)) g = length (filter (\<lambda>r. region r = Some g) fdf)"
proof (induction fdf)
  case Nil
  show ?case by simp
next
  case (Cons a fdf)
  then show ?case by (cases "region a") auto
qed

lemma filter_eq_distinct:
  "distinct xs \<Longrightarrow> filter (\<lambda>k. k = g) xs = (if g \<in> set xs then [g] else [])"
  by (induction xs) (auto simp: filter_empty_conv)

text \<open>The entry of a region in \<open>region_totals\<close>, or 0: the number of rows of the region.\<close>

lemma region_total_count:
  "(case map snd (filter (\<lambda>(k, n). k = g) (region_totals fdf)) of [] \<Rightarrow> 0 | x # _ \<Rightarrow> x) =
     length (filter (\<lambda>r. region r = Some g) fdf)"
proof -
  let ?ks = "dropna (map region fdf)"
  have "filter (\<lambda>(k, n). k = g) (region_totals fdf) =
          map (\<lambda>k. (k, count_list ?ks k)) (filter (\<lambda>k. k = g) (sort (remdups ?ks)))"
    by (simp add: region_totals_def groupby_size_def Let_def filter_map comp_def)
  also have "filter (\<lambda>k. k = g) (sort (remdups ?ks)) = (if g \<in> set ?ks then [g] else [])"
    by (simp add: filter_eq_distinct)
  finally have "(case map snd (filter (\<lambda>(k, n). k = g) (region_totals fdf)) of
                   [] \<Rightarrow> 0 | x # _ \<Rightarrow> x) = count_list ?ks g"
    by (simp add: count_list_0_iff)
  then show ?thesis by (simp add: count_region)
qed

lemma count_region_device_key:
  "count_list (dropna (map region_device_key fdf)) (g, d) =
     length (filter (\<lambda>r. region r = Some g \<and> device_name r = Some d) fdf)"
  by (induction fdf) (auto simp: region_device_key_def split: option.splits)

lemma set_region_device_keys:
  "set (dropna (map region_device_key fdf)) =
     {(g, d). \<exists>r \<in> set fdf. region r = Some g \<and> device_name r = Some d}"
  by (force simp: set_dropna region_device_key_def split: option.splits)

lemma set_region_devices:
  "set (dropna (map device_name (filter (\<lambda>r. region r = Some g) fdf))) =
     {d. \<exists>r \<in> set fdf. region r = Some g \<and> device_name r = Some d}"
  by (force simp: set_dropna)

text \<open>
  Pairs with one and the same first component, in ascending order: their second
  components ascend as well.
\<close>

lemma sorted_map_snd:
  fixes xs :: "('a :: linorder \<times> 'b :: linorder) list"
  shows "sorted xs \<Longrightarrow> \<forall>x \<in> set xs. fst x = g \<Longrightarrow> sorted (map snd xs)"
  by (induction xs) (auto simp: less_eq_prod_def)

lemma distinct_map_snd:
  "distinct xs \<Longrightarrow> \<forall>x \<in> set xs. fst x = g \<Longrightarrow> distinct (map snd xs)"
  by (induction xs) (auto simp: image_iff prod_eq_iff)

lemma region_keys_sorted:
  fixes ks :: "(string \<times> string) list"
  shows "map snd (filter (\<lambda>k. fst k = g) (sort (remdups ks))) =
         sort (remdups (map snd (filter (\<lambda>k. fst k = g) ks)))"
proof (rule sorted_distinct_set_unique)
  let ?L = "filter (\<lambda>k. fst k = g) (sort (remdups ks))"
  have "sorted ?L" by (rule sorted_wrt_filter) simp
  then show "sorted (map snd ?L)" by (rule sorted_map_snd [where g = g]) simp
  have "distinct ?L" by simp
  then show "distinct (map snd ?L)" by (rule distinct_map_snd [where g = g]) simp
  show "set (map snd ?L) = set (sort (remdups (map snd (filter (\<lambda>k. fst k = g) ks))))"
    by auto
qed simp_all

text \<open>
  The rows of \<open>region_device_counts\<close> for one region, as \<open>hover_for\<close> selects them:
  the devices of the region in ascending order of their names, each with the number of
  filtered rows of that region and device.
\<close>

lemma breakdown_of_region:
  "map (\<lambda>((k, d), c). (d, c)) (filter (\<lambda>((k, d), c). k = g) (region_device_counts fdf)) =
     map (\<lambda>d. (d, length (filter (\<lambda>r. region r = Some g \<and> device_name r = Some d) fdf)))
       (sort (remdups (dropna (map device_name (filter (\<lambda>r. region r = Some g) fdf)))))"
proof -
  let ?ks = "dropna (map region_device_key fdf)"
  let ?L = "filter (\<lambda>k. fst k = g) (sort (remdups ?ks))"
  let ?cnt = "\<lambda>d. length (filter (\<lambda>r. region r = Some g \<and> device_name r = Some d) fdf)"
  have "map (\<lambda>((k, d), c). (d, c)) (filter (\<lambda>((k, d), c). k = g) (region_device_counts fdf))
      = map (\<lambda>k. (snd k, count_list ?ks k)) ?L"
    by (simp add: region_device_counts_def groupby_size_def Let_def filter_map comp_def split_def)
  also have "\<dots> = map (\<lambda>k. (snd k, ?cnt (snd k))) ?L"
  proof (rule map_cong [OF refl])
    fix k assume "k \<in> set ?L"
    then have "k = (g, snd k)" by (auto simp: prod_eq_iff)
    then have "count_list ?ks k = ?cnt (snd k)"
      using count_region_device_key [of fdf g "snd k"] by simp
    then show "(snd k, count_list ?ks k) = (snd k, ?cnt (snd k))" by simp
  qed
  also have "\<dots> = map (\<lambda>d. (d, ?cnt d)) (map snd ?L)"
    by (simp add: comp_def)
  also have "map snd ?L = sort (remdups (map snd (filter (\<lambda>k. fst k = g) ?ks)))"
    by (rule region_keys_sorted)
  also have "\<dots> = sort (remdups (dropna (map device_name (filter (\<lambda>r. region r = Some g) fdf))))"
  proof (rule sorted_distinct_set_unique)
    show "set (sort (remdups (map snd (filter (\<lambda>k. fst k = g) ?ks)))) =
          set (sort (remdups (dropna (map device_name (filter (\<lambda>r. region r = Some g) fdf)))))"
      unfolding set_sort set_remdups set_region_devices
      by (force simp: set_region_device_keys)
  qed simp_all
  finally show ?thesis .
qed

text \<open>The hover text at a position of the result belongs to the state at that position.\<close>

lemma hover_at_position:
  assumes "update_map df sd sr = Inr res" and "i < length (customdata (fst res))"
  shows "i < length (locations (fst res)) \<and>
         (\<exists>n. hover_for sr (region_totals (filtered_df df sd sr))
                 (region_device_counts (filtered_df df sd sr))
                 (locations (fst res) ! i, n, state_to_region (locations (fst res) ! i)) =
               Inr (customdata (fst res) ! i))"
proof -
  let ?fdf = "filtered_df df sd sr"
  let ?st = "state_totals ?fdf"
  have cd: "customdata (fst res) = projr (hover_texts sr ?fdf)"
    by (rule customdata_update_map [OF assms(1)])
  have loc: "locations (fst res) = map (\<lambda>(s, n, g). s) ?st"
    by (rule locations_update_map [OF assms(1)])
  have all2: "list_all2 (\<lambda>row h. hover_for sr (region_totals ?fdf) (region_device_counts ?fdf) row
                 = Inr h) ?st (customdata (fst res))"
    unfolding cd by (rule hover_texts_all2)
  then have len: "length ?st = length (customdata (fst res))"
    by (rule list_all2_lengthD)
  with assms(2) have i: "i < length ?st" by simp
  from all2 i have h: "hover_for sr (region_totals ?fdf) (region_device_counts ?fdf) (?st ! i)
                         = Inr (customdata (fst res) ! i)"
    by (simp add: list_all2_conv_all_nth)
  obtain s n g where row: "?st ! i = (s, n, g)" by (cases "?st ! i")
  from i row have "(s, n, g) \<in> set ?st" by (metis nth_mem)
  then have g: "g = state_to_region s" by (simp add: state_totals_row)
  from i row have s: "locations (fst res) ! i = s" by (simp add: loc)
  from i h row g s show ?thesis by (auto simp: loc)
qed

lemma west_update_map:
  "update_map west_table [''Solar'', ''Battery'', ''EV Charger''] [''West''] = Inr west_result"
  unfolding west_table_def west_result_def by code_simp

lemma west_encounter_order:
  "encounter_order_breakdown
     (filtered_df west_table [''Solar'', ''Battery'', ''EV Charger''] [''West'']) ''West'' =
   [(''Solar'', 1), (''EV Charger'', 3), (''Battery'', 1)]"
  unfolding west_table_def by code_simp

section \<open>Identifiers that a double holds exactly\<close>

lemma bit_length_le: "a < 2 ^ k \<Longrightarrow> bit_length a \<le> k"
proof (induction k arbitrary: a)
  case 0
  then show ?case by simp
next
  case (Suc k)
  from Suc.prems have "a div 2 < 2 ^ k" by simp
  then have "bit_length (a div 2) \<le> k" by (rule Suc.IH)
  then show ?case by (subst bit_length.simps) simp
qed

lemma float64_exact: "\<bar>n\<bar> < 2 ^ 53 \<Longrightarrow> float64 n = n"
  using bit_length_le [of "\<bar>n\<bar>" 53] by (simp add: float64_def Let_def)

text \<open>
  When the column holds no null, or the identifiers are below \<open>2 ^ 53\<close> in absolute
  value, a key and a cell meet only when they are equal.
\<close>

lemma same_id_exact:
  assumes "t = Int64 \<or> (\<bar>sint k\<bar> < 2 ^ 53 \<and> \<bar>sint i\<bar> < 2 ^ 53)"
  shows "same_id t k i \<longleftrightarrow> k = i"
proof (cases t)
  case Int64
  then show ?thesis by (simp add: same_id_def)
next
  case Float64
  with assms have "float64 (sint k) = sint k" "float64 (sint i) = sint i"
    by (simp_all add: float64_exact)
  with Float64 show ?thesis by (auto simp: same_id_def intro: signed_word_eqI)
qed

section \<open>Empty selections and the empty table\<close>

text \<open>
  Claim C1. When the selected devices or the selected regions are empty, no row of the
  table survives the filtering, whatever the table holds, and the result that
  \<open>update_map\<close> returns shows no state and the total 0: it is the result for no
  matching programs, or the result for no data when the table itself is empty.
\<close>

theorem empty_selection_empty_aggregate:
  assumes "selected_devices = [] \<or> selected_regions = []"
  shows "filtered_df df selected_devices selected_regions = [] \<and>
         update_map df selected_devices selected_regions =
           Inr (if df = [] then (empty_figure NoDataAvailable False, SummaryNoDataAvailable)
                else (empty_figure NoDataAvailableForSelectedFilters True,
                      SummaryNoProgramsMatch)) \<and>
         (\<exists>res. update_map df selected_devices selected_regions = Inr res \<and>
                state_counts res = [] \<and> total_programs res = 0)"
  using assms
  by (auto simp: update_map_cases filtered_df_eq state_counts_def empty_figure_def)

theorem empty_selection_empty_aggregate_witness:
  "(([] :: string list) = [] \<or> [''West''] = ([] :: string list)) \<and>
   filtered_df example_table [] [''West''] = [] \<and>
   update_map example_table [] [''West''] =
     Inr (empty_figure NoDataAvailableForSelectedFilters True, SummaryNoProgramsMatch) \<and>
   (\<exists>res. update_map example_table [] [''West''] = Inr res \<and>
          state_counts res = [] \<and> total_programs res = 0)"
proof -
  have ne: "example_table \<noteq> []"
    by (simp add: example_table_def)
  have h: "([] :: string list) = [] \<or> [''West''] = ([] :: string list)"
    by simp
  note c = empty_selection_empty_aggregate [OF h, of example_table]
  from c ne have "update_map example_table [] [''West''] =
     Inr (empty_figure NoDataAvailableForSelectedFilters True, SummaryNoProgramsMatch)"
    by (simp only: if_False)
  with c h show ?thesis by blast
qed

text \<open>
  Claim C2. On the empty table \<open>update_map\<close> returns the figure titled
  "No data available" with the paragraph "No data available", for every pair of
  selections; this is not the result "No data available for selected filters" that an
  empty filtered set gives.
\<close>

theorem empty_table_no_data:
  "update_map [] selected_devices selected_regions =
     Inr (empty_figure NoDataAvailable False, SummaryNoDataAvailable) \<and>
   update_map [] selected_devices selected_regions \<noteq>
     Inr (empty_figure NoDataAvailableForSelectedFilters True, SummaryNoProgramsMatch)"
  by (simp add: update_map_def)

section \<open>Counts per state and the total\<close>

text \<open>
  Claim C3. For a table built by \<open>df_us_programs\<close> and non-empty selections of devices
  and regions, the result's total is the number of filtered rows, and the counts per
  state add up to that total.
\<close>

theorem state_counts_sum_to_total:
  assumes "selected_devices \<noteq> []" and "selected_regions \<noteq> []"
  shows "\<exists>res. update_map (df_us_programs ps dd) selected_devices selected_regions = Inr res \<and>
           total_programs res =
             length (filtered_df (df_us_programs ps dd) selected_devices selected_regions) \<and>
           sum_list (map snd (state_counts res)) = total_programs res"
proof -
  obtain res where
    res: "update_map (df_us_programs ps dd) selected_devices selected_regions = Inr res"
    by (simp add: update_map_cases)
  have "map snd (state_counts res) = map (\<lambda>(s, n, g). n)
          (state_totals (filtered_df (df_us_programs ps dd) selected_devices selected_regions))"
    by (simp add: state_counts_update_map [OF res] split_def comp_def)
  then show ?thesis
    using res total_programs_update_map [OF res] sum_state_totals_base by auto
qed

theorem state_counts_sum_to_total_witness:
  "[''Solar'', ''Battery''] \<noteq> ([] :: string list) \<and>
   [''West'', ''Southwest''] \<noteq> ([] :: string list) \<and>
   (\<exists>res. update_map (df_us_programs example_programs example_dict)
            [''Solar'', ''Battery''] [''West'', ''Southwest''] = Inr res \<and>
          total_programs res =
            length (filtered_df (df_us_programs example_programs example_dict)
                      [''Solar'', ''Battery''] [''West'', ''Southwest'']) \<and>
          sum_list (map snd (state_counts res)) = total_programs res)"
  using state_counts_sum_to_total
          [of "[''Solar'', ''Battery'']" "[''West'', ''Southwest'']" example_programs example_dict]
  by simp

section \<open>Monotonicity in the selections\<close>

text \<open>
  Claim C4. Taking one device out of the selected devices, or one region out of the
  selected regions, with the table and the other selection unchanged, gives a result
  whose total is not larger.
\<close>

theorem deselecting_never_increases_total:
  "\<exists>res res_d res_r.
     update_map df selected_devices selected_regions = Inr res \<and>
     update_map df (removeAll d selected_devices) selected_regions = Inr res_d \<and>
     update_map df selected_devices (removeAll g selected_regions) = Inr res_r \<and>
     total_programs res_d \<le> total_programs res \<and>
     total_programs res_r \<le> total_programs res"
proof -
  obtain res where 1: "update_map df selected_devices selected_regions = Inr res"
    by (simp add: update_map_cases)
  obtain res_d where
    2: "update_map df (removeAll d selected_devices) selected_regions = Inr res_d"
    by (simp add: update_map_cases)
  obtain res_r where
    3: "update_map df selected_devices (removeAll g selected_regions) = Inr res_r"
    by (simp add: update_map_cases)
  have "total_programs res_d \<le> total_programs res"
    unfolding total_programs_update_map [OF 1] total_programs_update_map [OF 2]
    by (rule length_filtered_df_mono) auto
  moreover have "total_programs res_r \<le> total_programs res"
    unfolding total_programs_update_map [OF 1] total_programs_update_map [OF 3]
    by (rule length_filtered_df_mono) auto
  ultimately show ?thesis using 1 2 3 by blast
qed

section \<open>Totality of the callback\<close>

text \<open>
  Claim C8. \<open>update_map\<close> returns a figure and a summary for every table and every two
  selections, the empty ones included. Three steps of its body can raise, and none does:
  \<open>region_total[0]\<close> is guarded by the test of the length, also for a state whose
  region has no row in \<open>region_totals\<close>; the assignment of the hover column gets one
  text per row of \<open>state_totals\<close>, since each pass of the loop appends one; and every
  dictionary of \<open>region_centers\<close> has the keys \<open>lon\<close> and \<open>lat\<close>.
\<close>

theorem update_map_never_raises:
  "\<exists>res. update_map df selected_devices selected_regions = Inr res"
proof (cases "df = [] \<or> filtered_df df selected_devices selected_regions = []")
  case True
  then show ?thesis by (auto simp: update_map_def)
next
  case False
  let ?fdf = "filtered_df df selected_devices selected_regions"
  obtain texts where texts: "hover_texts selected_regions ?fdf = Inr texts"
    and all2: "list_all2 (\<lambda>row h. hover_for selected_regions (region_totals ?fdf)
                  (region_device_counts ?fdf) row = Inr h) (state_totals ?fdf) texts"
    using hover_texts_result [of selected_regions ?fdf] by blast
  from all2 have "length texts = length (state_totals ?fdf)"
    by (simp add: list_all2_lengthD)
  then have rows: "assign_column (state_totals ?fdf) texts = Inr (zip (state_totals ?fdf) texts)"
    by (simp add: assign_column_def)
  obtain traces where traces: "add_region_labels selected_regions region_centers [] = Inr traces"
    using region_labels_Inr [of selected_regions] by blast
  from False texts rows traces show ?thesis
    by (simp add: update_map_def Let_def)
qed

section \<open>The order of the device lines in the hover text\<close>

text \<open>
  Claim C5 says that the device lines of a region's hover text come in the order in
  which the filtered rows first show the devices. The filtered programs of the West show
  Solar, then the EV charger, then the battery; the hover texts of California and of
  Oregon list the battery, the EV charger, Solar.
\<close>

theorem hover_breakdown_encounter_order_counterexample:
  "update_map west_table [''Solar'', ''Battery'', ''EV Charger''] [''West''] = Inr west_result \<and>
   customdata (fst west_result) =
     [RegionHover ''West'' 5 [(''Battery'', 1), (''EV Charger'', 3), (''Solar'', 1)],
      RegionHover ''West'' 5 [(''Battery'', 1), (''EV Charger'', 3), (''Solar'', 1)]] \<and>
   encounter_order_breakdown
     (filtered_df west_table [''Solar'', ''Battery'', ''EV Charger''] [''West'']) ''West'' =
     [(''Solar'', 1), (''EV Charger'', 3), (''Battery'', 1)] \<and>
   customdata (fst west_result) \<noteq>
     [RegionHover ''West'' 5 (encounter_order_breakdown
        (filtered_df west_table [''Solar'', ''Battery'', ''EV Charger''] [''West'']) ''West''),
      RegionHover ''West'' 5 (encounter_order_breakdown
        (filtered_df west_table [''Solar'', ''Battery'', ''EV Charger''] [''West'']) ''West'')]"
  by (simp add: west_update_map west_encounter_order) (simp add: west_result_def)

text \<open>
  Claim C5, amended. In the hover text built for each state that has device lines, the
  region named is the region of that state in \<open>state_to_region\<close> and is selected, the
  total is the number of filtered rows of that region, and the device lines list the
  devices of that region in ascending order of the device name, the key order of the
  group-by, each once and with the number of filtered rows of that region and device;
  the order is neither the order of encounter nor an order by count.
\<close>

theorem hover_breakdown_sorted_by_device_name:
  assumes "update_map df selected_devices selected_regions = Inr res"
      and "i < length (customdata (fst res))"
      and "customdata (fst res) ! i = RegionHover g t devs"
  shows "i < length (locations (fst res)) \<and>
         state_to_region (locations (fst res) ! i) = Some g \<and>
         g \<in> set selected_regions \<and>
         t = length (filter (\<lambda>r. region r = Some g)
                       (filtered_df df selected_devices selected_regions)) \<and>
         devs =
           map (\<lambda>d. (d, length (filter (\<lambda>r. region r = Some g \<and> device_name r = Some d)
                                  (filtered_df df selected_devices selected_regions))))
             (sort (remdups (dropna (map device_name
                (filter (\<lambda>r. region r = Some g)
                   (filtered_df df selected_devices selected_regions)))))) \<and>
         sorted (map fst devs) \<and> distinct (map fst devs)"
proof -
  let ?fdf = "filtered_df df selected_devices selected_regions"
  let ?s = "locations (fst res) ! i"
  from hover_at_position [OF assms(1,2)] assms(3) obtain n where
    i: "i < length (locations (fst res))" and
    h: "hover_for selected_regions (region_totals ?fdf) (region_device_counts ?fdf)
          (?s, n, state_to_region ?s) = Inr (RegionHover g t devs)"
    by auto
  note f = hover_for_RegionHover [OF h]
  from f have reg: "state_to_region ?s = Some g" "g \<in> set selected_regions"
    by simp_all
  from f have t: "t = length (filter (\<lambda>r. region r = Some g) ?fdf)"
    by (simp only: region_total_count)
  from f have devs: "devs =
           map (\<lambda>d. (d, length (filter (\<lambda>r. region r = Some g \<and> device_name r = Some d) ?fdf)))
             (sort (remdups (dropna (map device_name (filter (\<lambda>r. region r = Some g) ?fdf)))))"
    by (simp only: breakdown_of_region)
  then have "map fst devs =
      sort (remdups (dropna (map device_name (filter (\<lambda>r. region r = Some g) ?fdf))))"
    by (simp add: comp_def)
  then have "sorted (map fst devs) \<and> distinct (map fst devs)" by simp
  with i reg t devs show ?thesis by (intro conjI) simp_all
qed

theorem hover_breakdown_sorted_by_device_name_witness:
  "update_map west_table [''Solar'', ''Battery'', ''EV Charger''] [''West''] = Inr west_result \<and>
   1 < length (customdata (fst west_result)) \<and>
   customdata (fst west_result) ! 1 =
     RegionHover ''West'' 5 [(''Battery'', 1), (''EV Charger'', 3), (''Solar'', 1)] \<and>
   locations (fst west_result) ! 1 = ''OR'' \<and>
   \<not> sorted (map snd [(''Battery'', 1 :: nat), (''EV Charger'', 3), (''Solar'', 1)]) \<and>
   \<not> sorted (rev (map snd [(''Battery'', 1 :: nat), (''EV Charger'', 3), (''Solar'', 1)])) \<and>
   (1 < length (locations (fst west_result)) \<and>
    state_to_region (locations (fst west_result) ! 1) = Some ''West'' \<and>
    ''West'' \<in> set [''West''] \<and>
    5 = length (filter (\<lambda>r. region r = Some ''West'')
                  (filtered_df west_table [''Solar'', ''Battery'', ''EV Charger''] [''West''])) \<and>
    [(''Battery'', 1), (''EV Charger'', 3), (''Solar'', 1)] =
      map (\<lambda>d. (d, length (filter (\<lambda>r. region r = Some ''West'' \<and> device_name r = Some d)
                (filtered_df west_table [''Solar'', ''Battery'', ''EV Charger''] [''West'']))))
        (sort (remdups (dropna (map device_name
           (filter (\<lambda>r. region r = Some ''West'')
              (filtered_df west_table [''Solar'', ''Battery'', ''EV Charger''] [''West''])))))) \<and>
    sorted (map fst [(''Battery'', 1 :: nat), (''EV Charger'', 3), (''Solar'', 1)]) \<and>
    distinct (map fst [(''Battery'', 1 :: nat), (''EV Charger'', 3), (''Solar'', 1)]))"
proof -
  note r = west_update_map
  have i: "1 < length (customdata (fst west_result))"
    by (simp add: west_result_def)
  have m: "customdata (fst west_result) ! 1 =
             RegionHover ''West'' 5 [(''Battery'', 1), (''EV Charger'', 3), (''Solar'', 1)]"
    by (simp add: west_result_def)
  have l: "locations (fst west_result) ! 1 = ''OR''"
    by (simp add: west_result_def)
  have c1: "\<not> sorted (map snd [(''Battery'', 1 :: nat), (''EV Charger'', 3), (''Solar'', 1)])"
    by simp
  have c2: "\<not> sorted (rev (map snd [(''Battery'', 1 :: nat), (''EV Charger'', 3), (''Solar'', 1)]))"
    by simp
  note c = hover_breakdown_sorted_by_device_name [OF r i m]
  show ?thesis
    by (rule conjI [OF r conjI [OF i conjI [OF m conjI [OF l conjI [OF c1 conjI [OF c2 c]]]]]])
qed

section \<open>The fallback hover text\<close>

text \<open>
  Claim C6. For a table built by \<open>df_us_programs\<close>, every state counted in
  \<open>state_totals\<close> of the filtered rows has a region in \<open>state_to_region\<close>, and that
  region is among the selected regions; so no hover text of the result is the fallback
  "No data for selected filters".
\<close>

theorem fallback_hover_unreachable:
  "\<exists>res. update_map (df_us_programs ps dd) selected_devices selected_regions = Inr res \<and>
     (\<forall>(s, n, g) \<in> set (state_totals
          (filtered_df (df_us_programs ps dd) selected_devices selected_regions)).
        \<exists>rg. g = Some rg \<and> state_to_region s = Some rg \<and> rg \<in> set selected_regions) \<and>
     (\<forall>h \<in> set (customdata (fst res)). \<forall>s. h \<noteq> NoDataForSelectedFilters s)"
proof -
  let ?fdf = "filtered_df (df_us_programs ps dd) selected_devices selected_regions"
  obtain res where
    res: "update_map (df_us_programs ps dd) selected_devices selected_regions = Inr res"
    by (simp add: update_map_cases)
  have a: "\<forall>(s, n, g) \<in> set (state_totals ?fdf).
             \<exists>rg. g = Some rg \<and> state_to_region s = Some rg \<and> rg \<in> set selected_regions"
    using base_state_totals_region [of _ _ _ ps dd selected_devices selected_regions] by blast
  have b: "\<forall>s. h \<noteq> NoDataForSelectedFilters s" if "h \<in> set (customdata (fst res))" for h
  proof -
    from that obtain i where i: "i < length (customdata (fst res))"
      and hi: "customdata (fst res) ! i = h"
      by (auto simp: in_set_conv_nth)
    have all2: "list_all2 (\<lambda>row h. hover_for selected_regions (region_totals ?fdf)
                   (region_device_counts ?fdf) row = Inr h)
                 (state_totals ?fdf) (customdata (fst res))"
      unfolding customdata_update_map [OF res] by (rule hover_texts_all2)
    then have len: "length (state_totals ?fdf) = length (customdata (fst res))"
      by (rule list_all2_lengthD)
    let ?row = "state_totals ?fdf ! i"
    from all2 i hi len have h: "hover_for selected_regions (region_totals ?fdf)
                   (region_device_counts ?fdf) ?row = Inr h"
      by (simp add: list_all2_conv_all_nth)
    from i len have row: "?row \<in> set (state_totals ?fdf)" by simp
    obtain s n g where [simp]: "?row = (s, n, g)" by (cases ?row)
    from row obtain rg where "g = Some rg" "rg \<noteq> []" "rg \<in> set selected_regions"
      using base_state_totals_region [of s n g ps dd selected_devices selected_regions] by auto
    with h hover_for_region
           [of rg selected_regions "region_totals ?fdf" "region_device_counts ?fdf" s n]
    show ?thesis by auto
  qed
  from res a b show ?thesis by blast
qed

theorem fallback_hover_unreachable_witness:
  "state_totals (filtered_df (df_us_programs example_programs example_dict)
      [''Solar'', ''Battery''] [''West'', ''Southwest'']) =
     [(''CA'', 2, Some ''West''), (''TX'', 1, Some ''Southwest'')] \<and>
   (\<exists>res. update_map (df_us_programs example_programs example_dict)
            [''Solar'', ''Battery''] [''West'', ''Southwest''] = Inr res \<and>
     (\<forall>(s, n, g) \<in> set (state_totals
          (filtered_df (df_us_programs example_programs example_dict)
             [''Solar'', ''Battery''] [''West'', ''Southwest''])).
        \<exists>rg. g = Some rg \<and> state_to_region s = Some rg \<and>
             rg \<in> set [''West'', ''Southwest'']) \<and>
     (\<forall>h \<in> set (customdata (fst res)). \<forall>s. h \<noteq> NoDataForSelectedFilters s))"
proof (rule conjI)
  show "state_totals (filtered_df (df_us_programs example_programs example_dict)
      [''Solar'', ''Battery''] [''West'', ''Southwest'']) =
     [(''CA'', 2, Some ''West''), (''TX'', 1, Some ''Southwest'')]"
    unfolding example_table_built example_table_def by code_simp
qed (rule fallback_hover_unreachable)

section \<open>Failures while loading\<close>

text \<open>
  Claim C7. When the fetch of the device categories raises, or the fetch of the programs
  raises, or the programs fetch yields no rows, \<open>load_data\<close> returns the empty table
  together with the empty dictionary; being a plain pair, the result carries no
  exception.
\<close>

theorem load_data_failure_gives_empty:
  assumes "isl device_response \<or> isl programs_response \<or> programs_response = Inr []"
  shows "load_data device_response programs_response = ([], [])"
  using assms
  by (auto simp: load_data_def load_data_try_def Let_def isl_def split: sum.splits)

theorem load_data_failure_gives_empty_witness:
  "(isl (Inl FetchError :: error + device_category list) \<or>
    isl (Inr example_programs :: error + program list) \<or>
    Inr example_programs = (Inr [] :: error + program list)) \<and>
   load_data (Inl FetchError) (Inr example_programs) = ([], []) \<and>
   load_data (Inr example_devices) (Inl FetchError) = ([], []) \<and>
   load_data (Inr example_devices) (Inr []) = ([], [])"
  using load_data_failure_gives_empty [of "Inl FetchError" "Inr example_programs"]
        load_data_failure_gives_empty [of "Inr example_devices" "Inl FetchError"]
        load_data_failure_gives_empty [of "Inr example_devices" "Inr []"]
  by simp

section \<open>Location codes\<close>

text \<open>
  Claim C9. For a program row of the loaded table: when its location code does not have
  length 2, no row of the built table carries that code; when the code has length 2 and
  no region in \<open>state_to_region\<close>, the row is in the built table with a null region, it
  is in no filtered set for any selections, and the totals per region and the counts per
  region and device are those of the table without the row.
\<close>

theorem location_code_filtering:
  assumes "load_data device_response programs_response = (df_programs, device_dict)"
      and "p \<in> set df_programs"
  shows "(\<not> str_len_is_2 (state_province p) \<longrightarrow>
            (\<forall>r \<in> set (df_us_programs df_programs device_dict).
               state_province r \<noteq> state_province p)) \<and>
         (str_len_is_2 (state_province p) \<and>
          map_cell state_to_region (state_province p) = None \<longrightarrow>
            add_columns (id_dtype df_programs) device_dict p
              \<in> set (df_us_programs df_programs device_dict) \<and>
            region (add_columns (id_dtype df_programs) device_dict p) = None \<and>
            (\<forall>sd sr.
               add_columns (id_dtype df_programs) device_dict p \<notin>
                 set (filtered_df (df_us_programs df_programs device_dict) sd sr) \<and>
               region_totals (filtered_df (df_us_programs df_programs device_dict) sd sr) =
                 region_totals (filtered_df
                   (removeAll (add_columns (id_dtype df_programs) device_dict p)
                      (df_us_programs df_programs device_dict)) sd sr) \<and>
               region_device_counts (filtered_df (df_us_programs df_programs device_dict) sd sr) =
                 region_device_counts (filtered_df
                   (removeAll (add_columns (id_dtype df_programs) device_dict p)
                      (df_us_programs df_programs device_dict)) sd sr)))"
proof (intro conjI impI)
  assume "\<not> str_len_is_2 (state_province p)"
  then show "\<forall>r \<in> set (df_us_programs df_programs device_dict).
               state_province r \<noteq> state_province p"
    using df_us_programs_row [of _ df_programs device_dict]
    by (fastforce simp: str_len_is_2_def split: option.splits)
next
  let ?T = "df_us_programs df_programs device_dict"
  let ?r = "add_columns (id_dtype df_programs) device_dict p"
  assume h: "str_len_is_2 (state_province p) \<and>
             map_cell state_to_region (state_province p) = None"
  from assms(2) have ne1: "df_programs \<noteq> []" by auto
  with assms(1) have ne2: "device_dict \<noteq> []" by (rule load_data_dict_ne)
  from ne1 ne2 assms(2) h show "?r \<in> set ?T"
    by (auto simp: df_us_programs_def)
  from h show reg: "region ?r = None"
    by (simp add: add_columns_def)
  show "\<forall>sd sr. ?r \<notin> set (filtered_df ?T sd sr) \<and>
          region_totals (filtered_df ?T sd sr) =
            region_totals (filtered_df (removeAll ?r ?T) sd sr) \<and>
          region_device_counts (filtered_df ?T sd sr) =
            region_device_counts (filtered_df (removeAll ?r ?T) sd sr)"
    using null_region_filtered_out [OF reg] filtered_df_removeAll [of ?r ?T]
    by simp
qed

theorem location_code_filtering_witness:
  "load_data (Inr example_devices) (Inr example_programs) = (example_programs, example_dict) \<and>
   \<lparr>state_province = Some ''ONT'', device_category_id = Some 2\<rparr> \<in> set example_programs \<and>
   \<not> str_len_is_2 (Some ''ONT'') \<and>
   Some ''ONT'' \<notin> set (map state_province (df_us_programs example_programs example_dict)) \<and>
   \<lparr>state_province = Some ''DC'', device_category_id = Some 2\<rparr> \<in> set example_programs \<and>
   str_len_is_2 (Some ''DC'') \<and> map_cell state_to_region (Some ''DC'') = None \<and>
   add_columns (id_dtype example_programs) example_dict
       \<lparr>state_province = Some ''DC'', device_category_id = Some 2\<rparr>
     \<in> set (df_us_programs example_programs example_dict) \<and>
   (\<forall>sd sr.
      add_columns (id_dtype example_programs) example_dict
          \<lparr>state_province = Some ''DC'', device_category_id = Some 2\<rparr>
        \<notin> set (filtered_df (df_us_programs example_programs example_dict) sd sr))"
proof -
  let ?ont = "\<lparr>state_province = Some ''ONT'', device_category_id = Some 2\<rparr>"
  let ?dc = "\<lparr>state_province = Some ''DC'', device_category_id = Some 2\<rparr>"
  note l = example_load
  have m1: "?ont \<in> set example_programs" and m2: "?dc \<in> set example_programs"
    by (simp_all add: example_programs_def)
  have h1: "\<not> str_len_is_2 (Some ''ONT'')"
    by (simp add: str_len_is_2_def)
  have h2: "str_len_is_2 (Some ''DC'')" "map_cell state_to_region (Some ''DC'') = None"
    by (simp_all add: str_len_is_2_def map_cell_def state_to_region_def state_to_region_items_def)
  from location_code_filtering [OF l m1] h1
  have c1: "Some ''ONT'' \<notin> set (map state_province
              (df_us_programs example_programs example_dict))"
    by auto
  from location_code_filtering [OF l m2] h2
  have c2: "add_columns (id_dtype example_programs) example_dict ?dc
              \<in> set (df_us_programs example_programs example_dict) \<and>
            (\<forall>sd sr. add_columns (id_dtype example_programs) example_dict ?dc
                \<notin> set (filtered_df (df_us_programs example_programs example_dict) sd sr))"
    by simp
  from l m1 m2 h1 h2 c1 c2 show ?thesis by (intro conjI) simp_all
qed

section \<open>Device categories without a name\<close>




end
